theory Spec2Isabelle
  imports Complex_Main "HOL-Library.List_Lexorder" "HOL-Library.Char_ord"
begin

section \<open>JavaScript values read by the tool handlers\<close>

text \<open>
  The handlers of \<^verbatim>\<open>server.js\<close> receive the result of \<^verbatim>\<open>JSON.parse\<close> and read
  properties of it. A property value is modelled as a JSON scalar, with \<open>JUndefined\<close> for a
  property that is missing. A number read from JSON is a finite double, modelled by its
  value as a rational, with one zero; what double arithmetic makes of two of them is the
  subject of \<open>num_add\<close> below. Strings are HOL strings, compared lexicographically character by character
  as the \<^verbatim>\<open><\<close> of JavaScript compares two strings code unit by code unit; this covers
  the ASCII text of dates and of the examples. Nested arrays and objects as property values
  are outside the model.
\<close>

datatype jsval = JUndefined | JNull | JBool bool | JNum rat | JStr string

text \<open>\<^verbatim>\<open>!!v\<close>: the truthiness that \<^verbatim>\<open>!v\<close>, \<^verbatim>\<open>v || d\<close> and \<^verbatim>\<open>v && w\<close> test.\<close>

fun truthy :: "jsval \<Rightarrow> bool" where
  "truthy JUndefined = False"
| "truthy JNull = False"
| "truthy (JBool b) = b"
| "truthy (JNum n) = (n \<noteq> 0)"
| "truthy (JStr s) = (s \<noteq> [])"

text \<open>\<^verbatim>\<open>typeof v === "number"\<close>.\<close>

fun is_number :: "jsval \<Rightarrow> bool" where
  "is_number (JNum n) = True"
| "is_number v = False"

text \<open>\<^verbatim>\<open>v || d\<close>.\<close>

definition or_else :: "jsval \<Rightarrow> jsval \<Rightarrow> jsval" where
  "or_else v d = (if truthy v then v else d)"

text \<open>\<^verbatim>\<open>v ?? null\<close>: only \<^verbatim>\<open>undefined\<close> and \<^verbatim>\<open>null\<close> are replaced.\<close>

fun nullish_null :: "jsval \<Rightarrow> jsval" where
  "nullish_null JUndefined = JNull"
| "nullish_null v = v"

text \<open>What a handler throws. \<open>Error m\<close> is \<^verbatim>\<open>new Error(m)\<close>; \<open>TypeError\<close> is the
  engine's own exception for reading a property of \<^verbatim>\<open>null\<close> or calling something that is
  not a function; \<open>DatabaseError\<close> is the rejection of \<^verbatim>\<open>client.query\<close> when Postgres
  refuses a statement.\<close>

datatype error = Error string | TypeError | DatabaseError

section \<open>Events\<close>

text \<open>
  One object shape serves for a submitted event and for a stored one. The fields
  \<^verbatim>\<open>id\<close> and \<^verbatim>\<open>notes\<close> are written \<open>id'\<close> and \<open>notes'\<close>.
\<close>

record event =
  id' :: jsval
  user_id :: jsval
  timestamp :: jsval
  item :: jsval
  amount :: jsval
  unit :: jsval
  source :: jsval
  calories :: jsval
  notes' :: jsval

text \<open>An element of the \<^verbatim>\<open>events\<close> array. Reading a property of \<^verbatim>\<open>null\<close> throws;
  a boolean, number, string or array element reads each of the properties used here as
  \<^verbatim>\<open>undefined\<close>, as the object without any of them does.\<close>

datatype batch_elem = ENull | EObject event

text \<open>The value of \<^verbatim>\<open>input.events\<close> when the property is there: an array, or any other
  JSON value.\<close>

datatype events_field = NotArray | Array "batch_elem list"

text \<open>The \<^verbatim>\<open>input\<close> of \<^verbatim>\<open>log_consumption\<close>; the handler gets \<open>None\<close> when the payload
  has no \<^verbatim>\<open>input\<close> or a \<^verbatim>\<open>null\<close> one. An input that is not an object has no
  \<^verbatim>\<open>events\<close> property, as the object with \<open>events = None\<close>.\<close>

record log_input =
  events :: "events_field option"

text \<open>The \<^verbatim>\<open>input\<close> of \<^verbatim>\<open>list_consumption\<close> and \<^verbatim>\<open>summarize_intake\<close>; the three
  properties are strings when present (\<^verbatim>\<open>from\<close> and \<^verbatim>\<open>to\<close> are written \<open>from'\<close> and
  \<open>to'\<close>).\<close>

record query =
  q_user_id :: "string option"
  from' :: "string option"
  to' :: "string option"

record saved =
  saved_count :: nat

text \<open>
  What arithmetic on doubles yields: a finite double, an infinity on overflow, or
  \<^verbatim>\<open>NaN\<close>.
\<close>

datatype number = Finite rat | PosInf | NegInf | NaN

text \<open>What \<^verbatim>\<open>+\<close> yields: a number, or a string when an operand is a string.\<close>

datatype total = TNum number | TStr string

record summary =
  total_calories :: total
  events_count :: nat

section \<open>The in-memory HTTP binding (lines 4--58)\<close>

text \<open>\<^verbatim>\<open>const db = []\<close>: the store is the array itself, in insertion order.\<close>

type_synonym db = "event list"

text \<open>\<^verbatim>\<open>Array.isArray(input?.events) ? input.events : []\<close>.\<close>

definition events_of :: "log_input option \<Rightarrow> batch_elem list" where
  "events_of input =
     (case input of
        None \<Rightarrow> []
      | Some i \<Rightarrow> (case events i of Some (Array es) \<Rightarrow> es | _ \<Rightarrow> []))"

text \<open>The guard of line 22, negated: the event passes.\<close>

definition passes :: "event \<Rightarrow> bool" where
  "passes e \<longleftrightarrow>
     \<not> (\<not> truthy (timestamp e) \<or> \<not> truthy (item e) \<or> \<not> is_number (amount e)
        \<or> \<not> truthy (unit e))"

text \<open>The object pushed at lines 25--34; \<open>uuid\<close> is the result of
  \<^verbatim>\<open>crypto.randomUUID()\<close>. The submitted \<^verbatim>\<open>id\<close> and \<^verbatim>\<open>notes\<close> are not read, and the
  object has no \<^verbatim>\<open>notes\<close> property. \<^verbatim>\<open>e.calories ?? null\<close> keeps whatever value is
  there, of any type.\<close>

definition stored :: "string \<Rightarrow> event \<Rightarrow> event" where
  "stored uuid e =
     \<lparr> id' = JStr uuid,
       user_id = or_else (user_id e) (JStr ''u1''),
       timestamp = timestamp e,
       item = item e,
       amount = amount e,
       unit = unit e,
       source = or_else (source e) (JStr ''manual''),
       calories = nullish_null (calories e),
       notes' = JUndefined \<rparr>"

text \<open>The loop of lines 21--35. \<open>uuids k\<close> is what the \<open>k\<close>-th call of
  \<^verbatim>\<open>crypto.randomUUID()\<close> in this invocation returns. The loop stops at the first throw
  and keeps what it has pushed.\<close>

fun push_all :: "(nat \<Rightarrow> string) \<Rightarrow> nat \<Rightarrow> batch_elem list \<Rightarrow> db \<Rightarrow> error option \<times> db" where
  "push_all uuids k [] db = (None, db)"
| "push_all uuids k (ENull # es) db = (Some TypeError, db)"
| "push_all uuids k (EObject e # es) db =
     (if passes e then push_all uuids (Suc k) es (db @ [stored (uuids k) e])
      else (Some (Error ''Invalid event''), db))"

text \<open>\<^verbatim>\<open>tools.log_consumption\<close>: the result or the exception, and the store afterwards.\<close>

definition log_consumption ::
  "(nat \<Rightarrow> string) \<Rightarrow> log_input option \<Rightarrow> db \<Rightarrow> (error + saved) \<times> db" where
  "log_consumption uuids input db =
     (let es = events_of input in
      case push_all uuids 0 es db of
        (Some err, db') \<Rightarrow> (Inl err, db')
      | (None, db') \<Rightarrow> (Inr \<lparr>saved_count = length es\<rparr>, db'))"

text \<open>\<^verbatim>\<open>const iso = s => (s || "").slice(0, 10)\<close>: a truthy boolean or number has no
  \<^verbatim>\<open>slice\<close>, and the call throws.\<close>

definition iso :: "jsval \<Rightarrow> error + string" where
  "iso s =
     (case or_else s (JStr []) of
        JStr t \<Rightarrow> Inr (take 10 t)
      | _ \<Rightarrow> Inl TypeError)"

text \<open>\<^verbatim>\<open>user_id && e.user_id !== user_id\<close>: a missing or empty parameter is falsy, and
  values of different types are never strictly equal.\<close>

fun other_owner :: "string option \<Rightarrow> jsval \<Rightarrow> bool" where
  "other_owner None v = False"
| "other_owner (Some u) v = (u \<noteq> [] \<and> v \<noteq> JStr u)"

text \<open>\<^verbatim>\<open>from && d < from\<close> and \<^verbatim>\<open>to && d > to\<close>.\<close>

fun before :: "string option \<Rightarrow> string \<Rightarrow> bool" where
  "before None d = False"
| "before (Some f) d = (f \<noteq> [] \<and> d < f)"

fun after :: "string option \<Rightarrow> string \<Rightarrow> bool" where
  "after None d = False"
| "after (Some t) d = (t \<noteq> [] \<and> d > t)"

text \<open>The callback of \<^verbatim>\<open>db.filter\<close>, lines 42--48.\<close>

definition keeps :: "query \<Rightarrow> event \<Rightarrow> error + bool" where
  "keeps q e =
     (if other_owner (q_user_id q) (user_id e) then Inr False
      else
        (case iso (timestamp e) of
           Inl err \<Rightarrow> Inl err
         | Inr d \<Rightarrow>
             if before (from' q) d then Inr False
             else if after (to' q) d then Inr False
             else Inr True))"

text \<open>\<^verbatim>\<open>Array.prototype.filter\<close> with a callback that may throw: elements are visited in
  order, and the first throw ends the call.\<close>

fun filter_events :: "(event \<Rightarrow> error + bool) \<Rightarrow> event list \<Rightarrow> error + event list" where
  "filter_events p [] = Inr []"
| "filter_events p (e # es) =
     (case p e of
        Inl err \<Rightarrow> Inl err
      | Inr b \<Rightarrow>
          (case filter_events p es of
             Inl err \<Rightarrow> Inl err
           | Inr r \<Rightarrow> Inr (if b then e # r else r)))"

text \<open>\<^verbatim>\<open>input || {}\<close>: without an input, all three parameters are \<^verbatim>\<open>undefined\<close>.\<close>

definition no_query :: query where
  "no_query = \<lparr> q_user_id = None, from' = None, to' = None \<rparr>"

definition query_of :: "query option \<Rightarrow> query" where
  "query_of input = (case input of None \<Rightarrow> no_query | Some q \<Rightarrow> q)"

text \<open>\<^verbatim>\<open>tools.list_consumption\<close>; it does not change the store.\<close>

definition list_consumption :: "query option \<Rightarrow> db \<Rightarrow> error + event list" where
  "list_consumption input db = filter_events (keeps (query_of input)) db"

text \<open>
  The sum of two doubles is the exact sum, rounded. \<open>rnd\<close> stands for the rounding of
  binary64: the nearest double of a rational, or an infinity when it is out of range. It
  is a parameter. The other cases are those of IEEE 754.
\<close>

fun num_add :: "(rat \<Rightarrow> number) \<Rightarrow> number \<Rightarrow> number \<Rightarrow> number" where
  "num_add rnd (Finite a) (Finite b) = rnd (a + b)"
| "num_add rnd NaN y = NaN"
| "num_add rnd x NaN = NaN"
| "num_add rnd PosInf NegInf = NaN"
| "num_add rnd NegInf PosInf = NaN"
| "num_add rnd PosInf y = PosInf"
| "num_add rnd x PosInf = PosInf"
| "num_add rnd NegInf y = NegInf"
| "num_add rnd x NegInf = NegInf"

text \<open>The decimal digits of a natural number.\<close>

fun digits :: "nat \<Rightarrow> string" where
  "digits n =
     (if n < 10 then [''0123456789'' ! n]
      else digits (n div 10) @ [''0123456789'' ! (n mod 10)])"

text \<open>
  \<^verbatim>\<open>Number::toString\<close>: an integer below \<open>10 ^ 21\<close> in magnitude is written with its
  digits. \<open>str\<close> stands for the shortest decimal text that reads back as the same double,
  which the engine prints for every other finite number. It is a parameter.
\<close>

definition number_to_string :: "(rat \<Rightarrow> string) \<Rightarrow> number \<Rightarrow> string" where
  "number_to_string str n =
     (case n of
        NaN \<Rightarrow> ''NaN''
      | PosInf \<Rightarrow> ''Infinity''
      | NegInf \<Rightarrow> ''-Infinity''
      | Finite r \<Rightarrow>
          if r = of_int \<lfloor>r\<rfloor> \<and> \<bar>r\<bar> < 10 ^ 21
          then (if r < 0 then ''-'' @ digits (nat (- \<lfloor>r\<rfloor>)) else digits (nat \<lfloor>r\<rfloor>))
          else str r)"

text \<open>\<^verbatim>\<open>ToString\<close> of a value.\<close>

fun to_string :: "(rat \<Rightarrow> string) \<Rightarrow> jsval \<Rightarrow> string" where
  "to_string str JUndefined = ''undefined''"
| "to_string str JNull = ''null''"
| "to_string str (JBool b) = (if b then ''true'' else ''false'')"
| "to_string str (JNum c) = number_to_string str (Finite c)"
| "to_string str (JStr s) = s"

text \<open>
  \<^verbatim>\<open>s + v\<close> for the accumulator \<open>s\<close> of the reduction: when either side is a string the
  two are joined as strings; otherwise \<open>v\<close> is taken as a number (\<^verbatim>\<open>undefined\<close> as
  \<^verbatim>\<open>NaN\<close>, \<^verbatim>\<open>null\<close> and \<^verbatim>\<open>false\<close> as 0, \<^verbatim>\<open>true\<close> as 1) and added.
\<close>

fun js_plus :: "(rat \<Rightarrow> number) \<Rightarrow> (rat \<Rightarrow> string) \<Rightarrow> total \<Rightarrow> jsval \<Rightarrow> total" where
  "js_plus rnd str (TStr t) v = TStr (t @ to_string str v)"
| "js_plus rnd str (TNum n) (JStr s) = TStr (number_to_string str n @ s)"
| "js_plus rnd str (TNum n) (JNum c) = TNum (num_add rnd n (Finite c))"
| "js_plus rnd str (TNum n) (JBool b) = TNum (num_add rnd n (Finite (if b then 1 else 0)))"
| "js_plus rnd str (TNum n) JNull = TNum (num_add rnd n (Finite 0))"
| "js_plus rnd str (TNum n) JUndefined = TNum (num_add rnd n NaN)"

text \<open>\<^verbatim>\<open>tools.summarize_intake\<close>: it builds a fresh \<^verbatim>\<open>{ user_id, from, to }\<close>, calls
  \<^verbatim>\<open>list_consumption\<close> with it and reduces the result from the left with
  \<^verbatim>\<open>s + (e.calories || 0)\<close>, starting from 0.\<close>

definition summarize_intake ::
  "(rat \<Rightarrow> number) \<Rightarrow> (rat \<Rightarrow> string) \<Rightarrow> query option \<Rightarrow> db \<Rightarrow> error + summary" where
  "summarize_intake rnd str input db =
     (case list_consumption (Some (query_of input)) db of
        Inl err \<Rightarrow> Inl err
      | Inr evs \<Rightarrow>
          Inr \<lparr> total_calories =
                  foldl (\<lambda>s e. js_plus rnd str s (or_else (calories e) (JNum 0)))
                    (TNum (Finite 0)) evs,
                events_count = length evs \<rparr>)"

section \<open>The Postgres binding (lines 238--317)\<close>

text \<open>
  The table \<^verbatim>\<open>consumption_events\<close> as its rows; \<^verbatim>\<open>id\<close> is the primary key, so no
  two rows share an \<open>id'\<close>. A row is an event whose fields hold the column values.
\<close>

type_synonym table = "event list"

text \<open>\<^verbatim>\<open>CHECK (unit IN ('g','ml','piece','serving'))\<close>, line 246.\<close>

definition unit_check :: "jsval \<Rightarrow> bool" where
  "unit_check u \<longleftrightarrow> u \<in> {JStr ''g'', JStr ''ml'', JStr ''piece'', JStr ''serving''}"

text \<open>\<^verbatim>\<open>INSERT ... ON CONFLICT (id) DO UPDATE SET\<close> every other column, lines 277--289:
  the row with this \<open>id'\<close> is replaced, or the new row is added.\<close>

definition upsert :: "event \<Rightarrow> table \<Rightarrow> table" where
  "upsert r t =
     (if id' r \<in> id' ` set t then map (\<lambda>x. if id' x = id' r then r else x) t
      else t @ [r])"

text \<open>
  The parameters of lines 295--307, before \<^verbatim>\<open>new Date\<close> is applied to the timestamp.
  \<open>uuid\<close> is the result of \<^verbatim>\<open>crypto.randomUUID()\<close>, called only when \<^verbatim>\<open>e.id\<close> is
  falsy.
\<close>

definition row_of :: "string \<Rightarrow> event \<Rightarrow> event" where
  "row_of uuid e =
     \<lparr> id' = or_else (id' e) (JStr uuid),
       user_id = or_else (user_id e) (JStr ''u1''),
       timestamp = timestamp e,
       item = item e,
       amount = amount e,
       unit = unit e,
       source = or_else (source e) (JStr ''manual''),
       calories = nullish_null (calories e),
       notes' = nullish_null (notes' e) \<rparr>"

text \<open>
  The loop of lines 291--308 inside the transaction: \<open>Inl\<close> is the exception that leaves
  the \<^verbatim>\<open>try\<close> block, \<open>Inr\<close> the table as the transaction sees it after the last
  statement. \<open>convert p\<close> stands for what the driver and Postgres make of the parameters
  \<open>p\<close>: the row with every value in the type of its column (the date of the timestamp as
  \<^verbatim>\<open>TIMESTAMPTZ\<close>, an id as \<^verbatim>\<open>TEXT\<close>), or \<open>None\<close> when Postgres refuses one of
  them. It is a parameter. The \<^verbatim>\<open>CHECK\<close> and the primary key apply to the converted
  row.
\<close>

fun insert_all ::
  "(event \<Rightarrow> event option) \<Rightarrow> (nat \<Rightarrow> string) \<Rightarrow> nat \<Rightarrow> batch_elem list \<Rightarrow> table \<Rightarrow> error + table" where
  "insert_all convert uuids k [] t = Inr t"
| "insert_all convert uuids k (ENull # es) t = Inl TypeError"
| "insert_all convert uuids k (EObject e # es) t =
     (if \<not> passes e then Inl (Error ''Invalid event'')
      else
        (case convert (row_of (uuids k) e) of
           None \<Rightarrow> Inl DatabaseError
         | Some r \<Rightarrow>
             if \<not> unit_check (unit r) then Inl DatabaseError
             else insert_all convert uuids (if truthy (id' e) then k else Suc k) es
                    (upsert r t)))"

text \<open>\<^verbatim>\<open>tools.log_consumption\<close> of the Postgres binding: an empty batch returns before any
  statement; otherwise \<^verbatim>\<open>COMMIT\<close> publishes the table of the transaction and
  \<^verbatim>\<open>ROLLBACK\<close> keeps the table as it was.\<close>

definition pg_log_consumption ::
  "(event \<Rightarrow> event option) \<Rightarrow> (nat \<Rightarrow> string) \<Rightarrow> log_input option \<Rightarrow> table
     \<Rightarrow> (error + saved) \<times> table" where
  "pg_log_consumption convert uuids input t =
     (let es = events_of input in
      if length es = 0 then (Inr \<lparr>saved_count = 0\<rparr>, t)
      else
        (case insert_all convert uuids 0 es t of
           Inl err \<Rightarrow> (Inl err, t)
         | Inr t' \<Rightarrow> (Inr \<lparr>saved_count = length es\<rparr>, t')))"

section \<open>The wording of the specification\<close>

text \<open>The record's calendar date: the first 10 characters of its timestamp.\<close>

definition date_of :: "event \<Rightarrow> string" where
  "date_of e = (case timestamp e of JStr s \<Rightarrow> take 10 s | _ \<Rightarrow> [])"

text \<open>
  The match rule in the words of the specification: each of the three parameters is
  either absent or constrains the record.
\<close>

definition spec_matches :: "query \<Rightarrow> event \<Rightarrow> bool" where
  "spec_matches q e \<longleftrightarrow>
     (case q_user_id q of None \<Rightarrow> True | Some u \<Rightarrow> user_id e = JStr u)
     \<and> (case from' q of None \<Rightarrow> True | Some f \<Rightarrow> f \<le> date_of e)
     \<and> (case to' q of None \<Rightarrow> True | Some t \<Rightarrow> date_of e \<le> t)"

text \<open>The same rule with an empty parameter counted as an absent one.\<close>

definition matches :: "query \<Rightarrow> event \<Rightarrow> bool" where
  "matches q e \<longleftrightarrow>
     (case q_user_id q of None \<Rightarrow> True | Some u \<Rightarrow> u = [] \<or> user_id e = JStr u)
     \<and> (case from' q of None \<Rightarrow> True | Some f \<Rightarrow> f = [] \<or> f \<le> date_of e)
     \<and> (case to' q of None \<Rightarrow> True | Some t \<Rightarrow> t = [] \<or> date_of e \<le> t)"

text \<open>A calories value that is a number or absent, and its value with absent as 0.\<close>

fun number_or_absent :: "jsval \<Rightarrow> bool" where
  "number_or_absent JUndefined = True"
| "number_or_absent JNull = True"
| "number_or_absent (JNum c) = True"
| "number_or_absent v = False"

fun calories_value :: "jsval \<Rightarrow> rat" where
  "calories_value (JNum c) = c"
| "calories_value v = 0"

text \<open>The sum of the calories of the records \<open>evs\<close>, taken from the left in double
  arithmetic and starting from 0.\<close>

definition calories_sum :: "(rat \<Rightarrow> number) \<Rightarrow> event list \<Rightarrow> number" where
  "calories_sum rnd evs =
     foldl (\<lambda>n e. num_add rnd n (Finite (calories_value (calories e)))) (Finite 0) evs"

section \<open>What the in-memory loop stores\<close>

text \<open>
  The fields that a record \<open>r\<close> pushed for the event \<open>e\<close> takes from it: timestamp, item,
  amount and unit as submitted, calories as submitted or \<^verbatim>\<open>null\<close>, owner and source as
  submitted or the default.
\<close>

definition carries :: "event \<Rightarrow> event \<Rightarrow> bool" where
  "carries e r \<longleftrightarrow>
     timestamp r = timestamp e \<and> item r = item e \<and> amount r = amount e \<and> unit r = unit e
     \<and> calories r = nullish_null (calories e)
     \<and> user_id r = (if truthy (user_id e) then user_id e else JStr ''u1'')
     \<and> source r = (if truthy (source e) then source e else JStr ''manual'')"

text \<open>The records \<open>rs\<close> were pushed for the events \<open>es\<close>, one per event and in their
  order.\<close>

definition records_of :: "batch_elem list \<Rightarrow> event list \<Rightarrow> bool" where
  "records_of es rs \<longleftrightarrow> list_all2 (\<lambda>x r. \<exists>e. x = EObject e \<and> carries e r) es rs"

section \<open>Concrete inputs\<close>

text \<open>The input \<^verbatim>\<open>{ events: [...] }\<close>.\<close>

definition batch :: "batch_elem list \<Rightarrow> log_input option" where
  "batch es = Some \<lparr>events = Some (Array es)\<rparr>"

text \<open>The submitted event
  \<^verbatim>\<open>{ user_id: owner, timestamp: ts, item: "apple", amount: 1, unit: u, calories: c }\<close>,
  without the property \<^verbatim>\<open>unit\<close> or \<^verbatim>\<open>calories\<close> when \<open>u\<close> or \<open>c\<close> is
  \<open>JUndefined\<close>.\<close>

definition meal :: "string \<Rightarrow> string \<Rightarrow> jsval \<Rightarrow> jsval \<Rightarrow> event" where
  "meal owner ts u c =
     \<lparr> id' = JUndefined, user_id = JStr owner, timestamp = JStr ts, item = JStr ''apple'',
       amount = JNum 1, unit = u, source = JUndefined, calories = c, notes' = JUndefined \<rparr>"

section \<open>Facts about the handlers\<close>

subsection \<open>Validation and the loop of the in-memory binding\<close>

lemma passes_iff:
  "passes e \<longleftrightarrow>
     truthy (timestamp e) \<and> truthy (item e) \<and> is_number (amount e) \<and> truthy (unit e)"
  by (auto simp add: passes_def)

text \<open>The stored record does not depend on the submitted id or notes.\<close>

lemma stored_ignores_id: "stored u (e\<lparr>id' := i, notes' := n\<rparr>) = stored u e"
  by (simp add: stored_def)

lemma carries_stored: "carries e (stored u e)"
  by (simp add: carries_def stored_def or_else_def)

lemma snd_log_consumption:
  "snd (log_consumption uuids input db) = snd (push_all uuids 0 (events_of input) db)"
  by (simp add: log_consumption_def Let_def split: prod.splits option.splits)

text \<open>A batch of events that all pass is appended whole, in order.\<close>

lemma push_all_valid:
  "\<forall>x\<in>set es. \<exists>e. x = EObject e \<and> passes e \<Longrightarrow>
   \<exists>new. push_all uuids k es db = (None, db @ new) \<and> records_of es new
     \<and> (\<forall>r\<in>set new. \<exists>e. EObject e \<in> set es \<and> timestamp r = timestamp e)"
proof (induction es arbitrary: k db)
  case Nil
  then show ?case by (simp add: records_of_def)
next
  case (Cons x es)
  then obtain e where x: "x = EObject e" and p: "passes e" by auto
  from Cons.prems have "\<forall>x\<in>set es. \<exists>e. x = EObject e \<and> passes e" by simp
  from Cons.IH [OF this, of "Suc k" "db @ [stored (uuids k) e]"]
  obtain new where
    n: "push_all uuids (Suc k) es (db @ [stored (uuids k) e])
          = (None, (db @ [stored (uuids k) e]) @ new)"
    and r: "records_of es new"
    and t: "\<forall>r\<in>set new. \<exists>e. EObject e \<in> set es \<and> timestamp r = timestamp e"
    by blast
  have "push_all uuids k (x # es) db = (None, db @ (stored (uuids k) e # new))"
    using x p n by simp
  moreover have "records_of (x # es) (stored (uuids k) e # new)"
    using x r carries_stored by (auto simp add: records_of_def)
  moreover have
    "\<forall>r\<in>set (stored (uuids k) e # new). \<exists>e. EObject e \<in> set (x # es) \<and> timestamp r = timestamp e"
    using x t by (auto simp add: stored_def)
  ultimately show ?case by blast
qed

text \<open>The loop only ever appends, and what it appends has the submitted owner, whether or
  not it runs to the end.\<close>

lemma push_all_owner:
  "\<forall>x\<in>set es. \<forall>e. x = EObject e \<longrightarrow> user_id e = JStr a \<Longrightarrow> a \<noteq> [] \<Longrightarrow>
   \<exists>new. snd (push_all uuids k es db) = db @ new \<and> (\<forall>r\<in>set new. user_id r = JStr a)"
proof (induction es arbitrary: k db)
  case Nil
  then show ?case by simp
next
  case (Cons x es)
  show ?case
  proof (cases x)
    case ENull
    then show ?thesis by simp
  next
    case (EObject e)
    show ?thesis
    proof (cases "passes e")
      case False
      with EObject show ?thesis by simp
    next
      case True
      from Cons.prems EObject have u: "user_id e = JStr a" by simp
      from Cons.prems have "\<forall>x\<in>set es. \<forall>e. x = EObject e \<longrightarrow> user_id e = JStr a" by simp
      from Cons.IH [OF this Cons.prems(2), of "Suc k" "db @ [stored (uuids k) e]"]
      obtain new where
        n: "snd (push_all uuids (Suc k) es (db @ [stored (uuids k) e]))
              = (db @ [stored (uuids k) e]) @ new"
        and o: "\<forall>r\<in>set new. user_id r = JStr a"
        by blast
      have "snd (push_all uuids k (x # es) db) = db @ (stored (uuids k) e # new)"
        using EObject True n by simp
      moreover have "\<forall>r\<in>set (stored (uuids k) e # new). user_id r = JStr a"
        using o u Cons.prems(2) by (simp add: stored_def or_else_def)
      ultimately show ?thesis by blast
    qed
  qed
qed

text \<open>The loop is fail-fast and nothing more: at the first event that does not pass, the
  events before it are in the store.\<close>

lemma push_all_stops:
  assumes "\<forall>x\<in>set es. \<exists>e. x = EObject e \<and> passes e" and "\<not> passes bad"
  shows "\<exists>new. push_all uuids k (es @ EObject bad # rest) db
                  = (Some (Error ''Invalid event''), db @ new)
               \<and> records_of es new"
  using assms(1)
proof (induction es arbitrary: k db)
  case Nil
  with assms(2) show ?case by (simp add: records_of_def)
next
  case (Cons x es)
  then obtain e where x: "x = EObject e" and p: "passes e" by auto
  from Cons.prems have "\<forall>x\<in>set es. \<exists>e. x = EObject e \<and> passes e" by simp
  from Cons.IH [OF this, of "Suc k" "db @ [stored (uuids k) e]"]
  obtain new where
    n: "push_all uuids (Suc k) (es @ EObject bad # rest) (db @ [stored (uuids k) e])
          = (Some (Error ''Invalid event''), (db @ [stored (uuids k) e]) @ new)"
    and r: "records_of es new"
    by blast
  have "push_all uuids k ((x # es) @ EObject bad # rest) db
          = (Some (Error ''Invalid event''), db @ (stored (uuids k) e # new))"
    using x p n by simp
  moreover have "records_of (x # es) (stored (uuids k) e # new)"
    using x r carries_stored by (auto simp add: records_of_def)
  ultimately show ?case by blast
qed

subsection \<open>Filtering\<close>

lemma filter_events_total:
  "\<forall>e\<in>set db. p e = Inr (f e) \<Longrightarrow> filter_events p db = Inr (filter f db)"
  by (induction db) auto

lemma filter_events_result:
  "filter_events p db = Inr r \<Longrightarrow> r = filter (\<lambda>e. p e = Inr True) db"
  by (induction db arbitrary: r) (auto split: sum.splits if_splits)

lemma filter_events_append:
  "filter_events p (xs @ ys) =
     (case filter_events p xs of
        Inl err \<Rightarrow> Inl err
      | Inr a \<Rightarrow> (case filter_events p ys of Inl err \<Rightarrow> Inl err | Inr b \<Rightarrow> Inr (a @ b)))"
  by (induction xs) (auto split: sum.splits)

lemma keeps_string:
  "timestamp e = JStr s \<Longrightarrow> keeps q e = Inr (matches q e)"
  by (cases "q_user_id q"; cases "from' q"; cases "to' q")
     (auto simp add: keeps_def matches_def iso_def or_else_def date_of_def not_less)

lemma list_consumption_query_of:
  "list_consumption (Some (query_of input)) db = list_consumption input db"
  by (simp add: list_consumption_def query_of_def)

lemma list_ignores_other_owner:
  assumes "b \<noteq> []" and "\<forall>r\<in>set new. user_id r \<noteq> JStr b" and "q_user_id q = Some b"
  shows "list_consumption (Some q) (db @ new) = list_consumption (Some q) db"
proof -
  have "\<forall>r\<in>set new. keeps q r = Inr False"
    using assms by (simp add: keeps_def)
  then have "filter_events (keeps q) new = Inr (filter (\<lambda>e. False) new)"
    by (rule filter_events_total)
  then show ?thesis
    by (simp add: list_consumption_def query_of_def filter_events_append split: sum.splits)
qed

lemma list_only_owner:
  assumes "b \<noteq> []" and "q_user_id q = Some b"
      and "list_consumption (Some q) db = Inr evs" and "e \<in> set evs"
  shows "user_id e = JStr b"
proof -
  from assms(3) have "evs = filter (\<lambda>e. keeps q e = Inr True) db"
    by (simp add: list_consumption_def query_of_def filter_events_result)
  with assms(4) have "keeps q e = Inr True" by simp
  with assms(1,2) show ?thesis
    by (auto simp add: keeps_def split: if_splits)
qed

text \<open>The listing is the store with records left out: the order is the order of
  insertion.\<close>

lemma list_in_store_order:
  "list_consumption input db = Inr evs \<Longrightarrow> \<exists>f. evs = filter f db"
  using filter_events_result by (fastforce simp add: list_consumption_def)

text \<open>After a batch of events that pass and have string timestamps, the listing without
  owner and date bounds is the whole store: the records stored before and those pushed for
  the batch.\<close>

lemma list_after_valid_batch:
  assumes valid: "\<forall>x\<in>set es. \<exists>e s. x = EObject e \<and> passes e \<and> timestamp e = JStr s"
      and old: "\<forall>e\<in>set db. \<exists>s. timestamp e = JStr s"
      and nofilter: "query_of input = no_query"
  shows "\<exists>new. log_consumption uuids (batch es) db = (Inr \<lparr>saved_count = length es\<rparr>, db @ new)
           \<and> list_consumption input (db @ new) = Inr (db @ new)
           \<and> records_of es new"
proof -
  from valid have "\<forall>x\<in>set es. \<exists>e. x = EObject e \<and> passes e" by blast
  from push_all_valid [OF this, of uuids 0 db]
  obtain new where n: "push_all uuids 0 es db = (None, db @ new)" and r: "records_of es new"
    and t: "\<forall>r\<in>set new. \<exists>e. EObject e \<in> set es \<and> timestamp r = timestamp e"
    by blast
  have log: "log_consumption uuids (batch es) db = (Inr \<lparr>saved_count = length es\<rparr>, db @ new)"
    using n by (simp add: log_consumption_def batch_def events_of_def)
  have str: "\<forall>e\<in>set (db @ new). \<exists>s. timestamp e = JStr s"
    using old t valid by fastforce
  have "\<forall>e\<in>set (db @ new). keeps no_query e = Inr True"
  proof
    fix e assume "e \<in> set (db @ new)"
    with str obtain s where "timestamp e = JStr s" by blast
    then show "keeps no_query e = Inr True"
      by (simp add: keeps_def no_query_def iso_def or_else_def)
  qed
  then have "filter_events (keeps no_query) (db @ new) = Inr (filter (\<lambda>e. True) (db @ new))"
    by (rule filter_events_total)
  then have "list_consumption input (db @ new) = Inr (db @ new)"
    using nofilter by (simp add: list_consumption_def)
  with log r show ?thesis by blast
qed

subsection \<open>Aggregation\<close>

text \<open>On calories that are numbers or absent the reduction stays a number: it is the sum
  from the left.\<close>

lemma reduce_numbers:
  "\<forall>e\<in>set evs. number_or_absent (calories e) \<Longrightarrow>
   foldl (\<lambda>s e. js_plus rnd str s (or_else (calories e) (JNum 0))) (TNum n) evs
     = TNum (foldl (\<lambda>n e. num_add rnd n (Finite (calories_value (calories e)))) n evs)"
proof (induction evs arbitrary: n)
  case Nil
  then show ?case by simp
next
  case (Cons e evs)
  from Cons.prems have "number_or_absent (calories e)" by simp
  then have "js_plus rnd str (TNum n) (or_else (calories e) (JNum 0))
               = TNum (num_add rnd n (Finite (calories_value (calories e))))"
    by (cases "calories e") (auto simp add: or_else_def)
  moreover from Cons.prems have "\<forall>e\<in>set evs. number_or_absent (calories e)" by simp
  ultimately show ?case using Cons.IH by simp
qed

text \<open>Where no rounding occurs, the sum from the left is the sum.\<close>

lemma exact_sum:
  "foldl (\<lambda>n e. num_add Finite n (Finite (calories_value (calories e)))) (Finite a) evs
     = Finite (a + sum_list (map (\<lambda>e. calories_value (calories e)) evs))"
  by (induction evs arbitrary: a) (auto simp add: add.assoc)

text \<open>
  \<^verbatim>\<open>summarize_intake\<close> fails where \<^verbatim>\<open>list_consumption\<close> fails; otherwise it counts the
  records that \<^verbatim>\<open>list_consumption\<close> returns for the same filter, whatever their calories,
  and when these are numbers or absent, the total is their sum from the left.
\<close>

lemma summarize_fails:
  "list_consumption input db = Inl err \<Longrightarrow> summarize_intake rnd str input db = Inl err"
  by (simp add: summarize_intake_def list_consumption_query_of)

lemma summarize_counts:
  "list_consumption input db = Inr evs \<Longrightarrow>
   \<exists>t. summarize_intake rnd str input db = Inr \<lparr>total_calories = t, events_count = length evs\<rparr>"
  by (simp add: summarize_intake_def list_consumption_query_of)

lemma summarize_numbers:
  assumes "list_consumption input db = Inr evs"
      and "\<forall>e\<in>set evs. number_or_absent (calories e)"
  shows "summarize_intake rnd str input db
           = Inr \<lparr>total_calories = TNum (calories_sum rnd evs), events_count = length evs\<rparr>"
  using assms
  by (simp add: summarize_intake_def list_consumption_query_of reduce_numbers calories_sum_def)

text \<open>The example of the specification: calories 100, absent and 50 for one owner give
  150 and 3.\<close>

lemma summarize_example:
  "summarize_intake Finite str (Some \<lparr>q_user_id = Some ''a'', from' = None, to' = None\<rparr>)
     [stored ''uuid-1'' (meal ''a'' ''2024-01-01T08:00:00Z'' (JStr ''g'') (JNum 100)),
      stored ''uuid-2'' (meal ''a'' ''2024-01-01T12:00:00Z'' (JStr ''g'') JUndefined),
      stored ''uuid-3'' (meal ''a'' ''2024-01-01T19:00:00Z'' (JStr ''g'') (JNum 50))]
   = Inr \<lparr>total_calories = TNum (Finite 150), events_count = 3\<rparr>"
  by (simp add: summarize_intake_def list_consumption_def query_of_def keeps_def iso_def
      or_else_def stored_def meal_def)

subsection \<open>The Postgres binding: transaction and upsert\<close>

text \<open>Whatever is thrown inside the transaction, the table is as before.\<close>

lemma pg_rollback:
  "fst (pg_log_consumption convert uuids input t) = Inl err \<Longrightarrow>
   snd (pg_log_consumption convert uuids input t) = t"
  by (auto simp add: pg_log_consumption_def Let_def split: sum.splits if_splits)

lemma upsert_ids: "id' ` set (upsert r t) = insert (id' r) (id' ` set t)"
  by (auto simp add: upsert_def image_iff)

lemma replace_ids: "map id' (map (\<lambda>x. if id' x = id' r then r else x) t) = map id' t"
  by (induction t) auto

lemma replace_absent:
  "id' r \<notin> id' ` set t \<Longrightarrow> map (\<lambda>x. if id' x = id' r then r else x) t = t"
  by (induction t) auto

lemma filter_absent:
  "id' r \<notin> id' ` set t \<Longrightarrow> filter (\<lambda>x. id' x = id' r) t = []"
  by (induction t) auto

lemma replace_twice:
  "map (\<lambda>x. if id' x = id' r then r else x) (map (\<lambda>x. if id' x = id' r then r else x) t)
     = map (\<lambda>x. if id' x = id' r then r else x) t"
  by (induction t) auto

lemma upsert_distinct:
  assumes "distinct (map id' t)"
  shows "distinct (map id' (upsert r t))"
proof (cases "id' r \<in> id' ` set t")
  case True
  then have "map id' (upsert r t) = map id' t"
    using replace_ids [of r t] by (simp add: upsert_def)
  with assms show ?thesis by simp
next
  case False
  with assms show ?thesis by (simp add: upsert_def)
qed

lemma replace_one_row:
  "distinct (map id' t) \<Longrightarrow> id' r \<in> id' ` set t \<Longrightarrow>
   filter (\<lambda>x. id' x = id' r) (map (\<lambda>x. if id' x = id' r then r else x) t) = [r]"
proof (induction t)
  case Nil
  then show ?case by simp
next
  case (Cons x t)
  show ?case
  proof (cases "id' x = id' r")
    case True
    with Cons.prems have "id' r \<notin> id' ` set t" by auto
    then have "filter (\<lambda>x. id' x = id' r) t = []"
      by (rule filter_absent)
    with True \<open>id' r \<notin> id' ` set t\<close> show ?thesis
      by (simp add: replace_absent)
  next
    case False
    with Cons.prems have "id' r \<in> id' ` set t" by auto
    with Cons False show ?thesis by simp
  qed
qed

text \<open>After the statement there is one row under the id, and it is the new one.\<close>

lemma upsert_one_row:
  assumes "distinct (map id' t)"
  shows "filter (\<lambda>x. id' x = id' r) (upsert r t) = [r]"
proof (cases "id' r \<in> id' ` set t")
  case True
  with assms show ?thesis by (simp add: upsert_def replace_one_row)
next
  case False
  then have "filter (\<lambda>x. id' x = id' r) t = []"
    by (rule filter_absent)
  with False show ?thesis by (simp add: upsert_def)
qed

text \<open>Running the same statement again changes nothing.\<close>

lemma upsert_twice: "upsert r (upsert r t) = upsert r t"
proof (cases "id' r \<in> id' ` set t")
  case True
  then have "id' r \<in> id' ` set (upsert r t)" by (simp add: upsert_ids)
  with True show ?thesis by (simp add: upsert_def replace_twice)
next
  case False
  then have "upsert r t = t @ [r]" by (simp add: upsert_def)
  moreover have "id' r \<in> id' ` set (t @ [r])" by simp
  ultimately show ?thesis using False by (simp add: upsert_def replace_absent)
qed

text \<open>A batch of one event that Postgres takes is one upsert.\<close>

lemma pg_single:
  assumes "passes e" and "convert (row_of (uuids 0) e) = Some r" and "unit_check (unit r)"
  shows "pg_log_consumption convert uuids (batch [EObject e]) t
           = (Inr \<lparr>saved_count = 1\<rparr>, upsert r t)"
  using assms by (simp add: pg_log_consumption_def batch_def events_of_def)

text \<open>The primary key: a committed batch leaves at most one row per id.\<close>

lemma insert_all_distinct:
  "distinct (map id' t) \<Longrightarrow> insert_all convert uuids k es t = Inr t' \<Longrightarrow> distinct (map id' t')"
proof (induction es arbitrary: k t)
  case Nil
  then show ?case by simp
next
  case (Cons x es)
  show ?case
  proof (cases x)
    case ENull
    with Cons.prems show ?thesis by simp
  next
    case (EObject e)
    with Cons.prems obtain r where
      rest: "insert_all convert uuids (if truthy (id' e) then k else Suc k) es (upsert r t) = Inr t'"
      by (auto split: if_splits option.splits)
    from Cons.prems(1) have "distinct (map id' (upsert r t))"
      by (rule upsert_distinct)
    from Cons.IH [OF this rest] show ?thesis .
  qed
qed

lemma pg_keeps_primary_key:
  "distinct (map id' t) \<Longrightarrow> distinct (map id' (snd (pg_log_consumption convert uuids input t)))"
  by (auto simp add: pg_log_consumption_def Let_def insert_all_distinct split: sum.splits)

section \<open>The claims\<close>

text \<open>
  C1. A batch that contains an invalid event is to fail with \<^verbatim>\<open>Invalid event\<close> and to
  leave the store as it was. For the batch of a valid event followed by one without a
  unit, both bindings throw \<^verbatim>\<open>Invalid event\<close>; the Postgres binding rolls back to the
  empty table, and the in-memory binding keeps the record of the first event. (\<open>Some\<close> as
  the conversion: Postgres stores the strings of this input as they are given.)
\<close>

theorem partial_batch_is_kept:
  "log_consumption uuids
     (batch [EObject (meal ''a'' ''2024-01-01T08:00:00Z'' (JStr ''g'') JUndefined),
             EObject (meal ''a'' ''2024-01-01T09:00:00Z'' JUndefined JUndefined)]) []
     = (Inl (Error ''Invalid event''),
        [stored (uuids 0) (meal ''a'' ''2024-01-01T08:00:00Z'' (JStr ''g'') JUndefined)])
   \<and> pg_log_consumption Some uuids
     (batch [EObject (meal ''a'' ''2024-01-01T08:00:00Z'' (JStr ''g'') JUndefined),
             EObject (meal ''a'' ''2024-01-01T09:00:00Z'' JUndefined JUndefined)]) []
     = (Inl (Error ''Invalid event''), [])"
proof
  show "log_consumption uuids
     (batch [EObject (meal ''a'' ''2024-01-01T08:00:00Z'' (JStr ''g'') JUndefined),
             EObject (meal ''a'' ''2024-01-01T09:00:00Z'' JUndefined JUndefined)]) []
     = (Inl (Error ''Invalid event''),
        [stored (uuids 0) (meal ''a'' ''2024-01-01T08:00:00Z'' (JStr ''g'') JUndefined)])"
    by (simp add: log_consumption_def batch_def events_of_def meal_def passes_def)
next
  show "pg_log_consumption Some uuids
     (batch [EObject (meal ''a'' ''2024-01-01T08:00:00Z'' (JStr ''g'') JUndefined),
             EObject (meal ''a'' ''2024-01-01T09:00:00Z'' JUndefined JUndefined)]) []
     = (Inl (Error ''Invalid event''), [])"
    by (simp add: pg_log_consumption_def batch_def events_of_def meal_def passes_def
        unit_check_def row_of_def)
qed

theorem partial_batch_is_kept_witness:
  "length (snd (log_consumption (\<lambda>k. ''uuid'')
     (batch [EObject (meal ''a'' ''2024-01-01T08:00:00Z'' (JStr ''g'') JUndefined),
             EObject (meal ''a'' ''2024-01-01T09:00:00Z'' JUndefined JUndefined)]) [])) = 1
   \<and> fst (log_consumption (\<lambda>k. ''uuid'')
     (batch [EObject (meal ''a'' ''2024-01-01T08:00:00Z'' (JStr ''g'') JUndefined),
             EObject (meal ''a'' ''2024-01-01T09:00:00Z'' JUndefined JUndefined)]) [])
       = Inl (Error ''Invalid event'')"
  using partial_batch_is_kept [of "\<lambda>k. ''uuid''"] by simp

text \<open>
  C2. Ingesting an event whose id is already stored is to replace the record, and
  ingesting the same event twice is to leave the store as after once. The in-memory
  binding never reads the submitted id: the event with id \<^verbatim>\<open>e1\<close>, ingested twice into
  the empty store, leaves two records, each under an id of its own. The Postgres binding
  leaves the one row of the first call, under \<^verbatim>\<open>e1\<close>.
\<close>

theorem same_event_twice_is_two_records:
  "snd (log_consumption uuids2
          (batch [EObject (meal ''a'' ''2024-01-01T08:00:00Z'' (JStr ''g'') JUndefined\<lparr>id' := JStr ''e1''\<rparr>)])
          (snd (log_consumption uuids1
                  (batch [EObject (meal ''a'' ''2024-01-01T08:00:00Z'' (JStr ''g'') JUndefined\<lparr>id' := JStr ''e1''\<rparr>)])
                  [])))
     = [(meal ''a'' ''2024-01-01T08:00:00Z'' (JStr ''g'') JUndefined)
          \<lparr>id' := JStr (uuids1 0), source := JStr ''manual'', calories := JNull\<rparr>,
        (meal ''a'' ''2024-01-01T08:00:00Z'' (JStr ''g'') JUndefined)
          \<lparr>id' := JStr (uuids2 0), source := JStr ''manual'', calories := JNull\<rparr>]
   \<and> snd (pg_log_consumption Some uuids2
          (batch [EObject (meal ''a'' ''2024-01-01T08:00:00Z'' (JStr ''g'') JUndefined\<lparr>id' := JStr ''e1''\<rparr>)])
          (snd (pg_log_consumption Some uuids1
                  (batch [EObject (meal ''a'' ''2024-01-01T08:00:00Z'' (JStr ''g'') JUndefined\<lparr>id' := JStr ''e1''\<rparr>)])
                  [])))
     = [(meal ''a'' ''2024-01-01T08:00:00Z'' (JStr ''g'') JUndefined)
          \<lparr>id' := JStr ''e1'', source := JStr ''manual'', calories := JNull, notes' := JNull\<rparr>]"
proof
  show "snd (log_consumption uuids2
          (batch [EObject (meal ''a'' ''2024-01-01T08:00:00Z'' (JStr ''g'') JUndefined\<lparr>id' := JStr ''e1''\<rparr>)])
          (snd (log_consumption uuids1
                  (batch [EObject (meal ''a'' ''2024-01-01T08:00:00Z'' (JStr ''g'') JUndefined\<lparr>id' := JStr ''e1''\<rparr>)])
                  [])))
     = [(meal ''a'' ''2024-01-01T08:00:00Z'' (JStr ''g'') JUndefined)
          \<lparr>id' := JStr (uuids1 0), source := JStr ''manual'', calories := JNull\<rparr>,
        (meal ''a'' ''2024-01-01T08:00:00Z'' (JStr ''g'') JUndefined)
          \<lparr>id' := JStr (uuids2 0), source := JStr ''manual'', calories := JNull\<rparr>]"
    by (simp add: log_consumption_def batch_def events_of_def meal_def passes_def stored_def
        or_else_def)
next
  show "snd (pg_log_consumption Some uuids2
          (batch [EObject (meal ''a'' ''2024-01-01T08:00:00Z'' (JStr ''g'') JUndefined\<lparr>id' := JStr ''e1''\<rparr>)])
          (snd (pg_log_consumption Some uuids1
                  (batch [EObject (meal ''a'' ''2024-01-01T08:00:00Z'' (JStr ''g'') JUndefined\<lparr>id' := JStr ''e1''\<rparr>)])
                  [])))
     = [(meal ''a'' ''2024-01-01T08:00:00Z'' (JStr ''g'') JUndefined)
          \<lparr>id' := JStr ''e1'', source := JStr ''manual'', calories := JNull, notes' := JNull\<rparr>]"
    by (simp add: pg_log_consumption_def batch_def events_of_def meal_def passes_def
        unit_check_def upsert_def row_of_def or_else_def)
qed

theorem same_event_twice_is_two_records_witness:
  "length (snd (log_consumption (\<lambda>k. ''uuid-2'')
          (batch [EObject (meal ''a'' ''2024-01-01T08:00:00Z'' (JStr ''g'') JUndefined\<lparr>id' := JStr ''e1''\<rparr>)])
          (snd (log_consumption (\<lambda>k. ''uuid-1'')
                  (batch [EObject (meal ''a'' ''2024-01-01T08:00:00Z'' (JStr ''g'') JUndefined\<lparr>id' := JStr ''e1''\<rparr>)])
                  [])))) = 2"
  using same_event_twice_is_two_records [of "\<lambda>k. ''uuid-2''" "\<lambda>k. ''uuid-1''"] by simp

text \<open>
  C3. After \<^verbatim>\<open>log_consumption\<close> of a valid batch, \<^verbatim>\<open>list_consumption\<close> without owner
  and date bounds is to return the records of the batch, matched by id, with every
  submitted field intact. On the empty store, the in-memory binding lists the event
  submitted with id \<^verbatim>\<open>e1\<close> and a note under the id that \<^verbatim>\<open>crypto.randomUUID()\<close>
  returned, and without the note: \<^verbatim>\<open>e.id\<close> and \<^verbatim>\<open>e.notes\<close> are never read. The row
  that the Postgres binding writes for the same input has the id and the note.
\<close>

theorem submitted_id_and_notes_are_lost:
  "list_consumption None
     (snd (log_consumption uuids
        (batch [EObject (meal ''a'' ''2024-01-01T08:00:00Z'' (JStr ''g'') (JNum 95)
                  \<lparr>id' := JStr ''e1'', notes' := JStr ''after a run''\<rparr>)]) []))
     = Inr [(meal ''a'' ''2024-01-01T08:00:00Z'' (JStr ''g'') (JNum 95))
              \<lparr>id' := JStr (uuids 0), source := JStr ''manual'', notes' := JUndefined\<rparr>]
   \<and> snd (pg_log_consumption Some uuids
        (batch [EObject (meal ''a'' ''2024-01-01T08:00:00Z'' (JStr ''g'') (JNum 95)
                  \<lparr>id' := JStr ''e1'', notes' := JStr ''after a run''\<rparr>)]) [])
     = [(meal ''a'' ''2024-01-01T08:00:00Z'' (JStr ''g'') (JNum 95))
          \<lparr>id' := JStr ''e1'', source := JStr ''manual'', notes' := JStr ''after a run''\<rparr>]"
proof
  have "snd (log_consumption uuids
        (batch [EObject (meal ''a'' ''2024-01-01T08:00:00Z'' (JStr ''g'') (JNum 95)
                  \<lparr>id' := JStr ''e1'', notes' := JStr ''after a run''\<rparr>)]) [])
     = [(meal ''a'' ''2024-01-01T08:00:00Z'' (JStr ''g'') (JNum 95))
              \<lparr>id' := JStr (uuids 0), source := JStr ''manual'', notes' := JUndefined\<rparr>]"
    by (simp add: log_consumption_def batch_def events_of_def meal_def passes_def stored_def
        or_else_def)
  then show "list_consumption None
     (snd (log_consumption uuids
        (batch [EObject (meal ''a'' ''2024-01-01T08:00:00Z'' (JStr ''g'') (JNum 95)
                  \<lparr>id' := JStr ''e1'', notes' := JStr ''after a run''\<rparr>)]) []))
     = Inr [(meal ''a'' ''2024-01-01T08:00:00Z'' (JStr ''g'') (JNum 95))
              \<lparr>id' := JStr (uuids 0), source := JStr ''manual'', notes' := JUndefined\<rparr>]"
    by (simp add: list_consumption_def query_of_def no_query_def keeps_def iso_def or_else_def
        meal_def)
next
  show "snd (pg_log_consumption Some uuids
        (batch [EObject (meal ''a'' ''2024-01-01T08:00:00Z'' (JStr ''g'') (JNum 95)
                  \<lparr>id' := JStr ''e1'', notes' := JStr ''after a run''\<rparr>)]) [])
     = [(meal ''a'' ''2024-01-01T08:00:00Z'' (JStr ''g'') (JNum 95))
          \<lparr>id' := JStr ''e1'', source := JStr ''manual'', notes' := JStr ''after a run''\<rparr>]"
    by (simp add: pg_log_consumption_def batch_def events_of_def meal_def passes_def
        unit_check_def upsert_def row_of_def or_else_def)
qed

theorem submitted_id_and_notes_are_lost_witness:
  "map id' (projr (list_consumption None
     (snd (log_consumption (\<lambda>k. ''uuid-1'')
        (batch [EObject (meal ''a'' ''2024-01-01T08:00:00Z'' (JStr ''g'') (JNum 95)
                  \<lparr>id' := JStr ''e1'', notes' := JStr ''after a run''\<rparr>)]) [])))) = [JStr ''uuid-1'']
   \<and> map notes' (projr (list_consumption None
     (snd (log_consumption (\<lambda>k. ''uuid-1'')
        (batch [EObject (meal ''a'' ''2024-01-01T08:00:00Z'' (JStr ''g'') (JNum 95)
                  \<lparr>id' := JStr ''e1'', notes' := JStr ''after a run''\<rparr>)]) [])))) = [JUndefined]"
  using submitted_id_and_notes_are_lost [of "\<lambda>k. ''uuid-1''"] by simp

text \<open>
  C4. An event is to be accepted and stored only when its unit is one of \<^verbatim>\<open>g\<close>,
  \<^verbatim>\<open>ml\<close>, \<^verbatim>\<open>piece\<close>, \<^verbatim>\<open>serving\<close>. The check of the in-memory binding asks of the
  unit only that it is truthy: the event with unit \<^verbatim>\<open>kg\<close> is stored and counted. The
  same event is refused by the \<^verbatim>\<open>CHECK\<close> constraint of the Postgres table.
\<close>

theorem unit_outside_enum_is_stored:
  "log_consumption uuids
     (batch [EObject (meal ''a'' ''2024-01-01T08:00:00Z'' (JStr ''kg'') JUndefined)]) db
     = (Inr \<lparr>saved_count = 1\<rparr>,
        db @ [stored (uuids 0) (meal ''a'' ''2024-01-01T08:00:00Z'' (JStr ''kg'') JUndefined)])
   \<and> pg_log_consumption Some uuids
     (batch [EObject (meal ''a'' ''2024-01-01T08:00:00Z'' (JStr ''kg'') JUndefined)]) t
     = (Inl DatabaseError, t)"
proof -
  have "passes (meal ''a'' ''2024-01-01T08:00:00Z'' (JStr ''kg'') JUndefined)"
    by (simp add: passes_iff meal_def)
  moreover have
    "\<not> unit_check (unit (row_of (uuids 0) (meal ''a'' ''2024-01-01T08:00:00Z'' (JStr ''kg'') JUndefined)))"
    by (simp add: unit_check_def row_of_def meal_def)
  ultimately show ?thesis
    by (simp add: log_consumption_def pg_log_consumption_def batch_def events_of_def)
qed

theorem unit_outside_enum_is_stored_witness:
  "unit (last (snd (log_consumption (\<lambda>k. ''uuid'')
     (batch [EObject (meal ''a'' ''2024-01-01T08:00:00Z'' (JStr ''kg'') JUndefined)]) []))) = JStr ''kg''"
  using unit_outside_enum_is_stored [of "\<lambda>k. ''uuid''" "[]"]
  by (simp add: stored_def meal_def)

text \<open>
  C5. \<^verbatim>\<open>list_consumption\<close> is to return the records in ascending order of timestamp,
  whatever the order of ingestion. The in-memory binding filters the array and does not
  sort: two events ingested later-first are listed later-first.
\<close>

theorem list_keeps_insertion_order:
  "list_consumption None
     (snd (log_consumption uuids
        (batch [EObject (meal ''a'' ''2024-01-02T08:00:00Z'' (JStr ''g'') JUndefined),
                EObject (meal ''a'' ''2024-01-01T08:00:00Z'' (JStr ''g'') JUndefined)]) []))
   = Inr [stored (uuids 0) (meal ''a'' ''2024-01-02T08:00:00Z'' (JStr ''g'') JUndefined),
          stored (uuids 1) (meal ''a'' ''2024-01-01T08:00:00Z'' (JStr ''g'') JUndefined)]"
proof -
  have "snd (log_consumption uuids
        (batch [EObject (meal ''a'' ''2024-01-02T08:00:00Z'' (JStr ''g'') JUndefined),
                EObject (meal ''a'' ''2024-01-01T08:00:00Z'' (JStr ''g'') JUndefined)]) [])
      = [stored (uuids 0) (meal ''a'' ''2024-01-02T08:00:00Z'' (JStr ''g'') JUndefined),
         stored (uuids 1) (meal ''a'' ''2024-01-01T08:00:00Z'' (JStr ''g'') JUndefined)]"
    by (simp add: log_consumption_def batch_def events_of_def meal_def passes_def)
  then show ?thesis
    by (simp add: list_consumption_def query_of_def no_query_def keeps_def iso_def or_else_def
        stored_def meal_def)
qed

theorem list_keeps_insertion_order_witness:
  "map timestamp (projr (list_consumption None
     (snd (log_consumption (\<lambda>k. ''uuid'')
        (batch [EObject (meal ''a'' ''2024-01-02T08:00:00Z'' (JStr ''g'') JUndefined),
                EObject (meal ''a'' ''2024-01-01T08:00:00Z'' (JStr ''g'') JUndefined)]) []))))
   = [JStr ''2024-01-02T08:00:00Z'', JStr ''2024-01-01T08:00:00Z'']"
  using list_keeps_insertion_order [of "\<lambda>k. ''uuid''"]
  by (simp add: stored_def meal_def)

text \<open>
  C6, as stated: a record is listed if and only if each of \<^verbatim>\<open>user_id\<close>, \<^verbatim>\<open>from\<close>,
  \<^verbatim>\<open>to\<close> is absent or satisfied by it. An empty \<^verbatim>\<open>user_id\<close> is present and equals no
  stored owner, yet the handler tests the parameter for truthiness and lists the record.
\<close>

theorem empty_owner_counterexample:
  "list_consumption (Some \<lparr>q_user_id = Some [], from' = None, to' = None\<rparr>)
      [stored ''uuid-1'' (meal ''a'' ''2024-01-01T08:00:00Z'' (JStr ''g'') JUndefined)]
     = Inr [stored ''uuid-1'' (meal ''a'' ''2024-01-01T08:00:00Z'' (JStr ''g'') JUndefined)]
   \<and> \<not> spec_matches \<lparr>q_user_id = Some [], from' = None, to' = None\<rparr>
        (stored ''uuid-1'' (meal ''a'' ''2024-01-01T08:00:00Z'' (JStr ''g'') JUndefined))"
  by (simp add: list_consumption_def query_of_def keeps_def iso_def or_else_def meal_def
      stored_def spec_matches_def)

text \<open>
  C6, amended: over a store whose timestamps are strings, \<^verbatim>\<open>list_consumption\<close> returns
  exactly the records for which \<^verbatim>\<open>user_id\<close> is absent or empty or equal
  to the record's owner, \<^verbatim>\<open>from\<close> is absent or empty or at most the first 10 characters
  of the timestamp, and \<^verbatim>\<open>to\<close> is absent or empty or at least those 10 characters, in
  the lexicographic order of strings.
\<close>

theorem list_is_filter:
  assumes "\<forall>e\<in>set db. \<exists>s. timestamp e = JStr s"
  shows "list_consumption input db = Inr (filter (matches (query_of input)) db)"
proof -
  have "\<forall>e\<in>set db. keeps (query_of input) e = Inr (matches (query_of input) e)"
  proof
    fix e assume "e \<in> set db"
    with assms obtain s where "timestamp e = JStr s" by blast
    then show "keeps (query_of input) e = Inr (matches (query_of input) e)"
      by (rule keeps_string)
  qed
  then show ?thesis
    unfolding list_consumption_def by (rule filter_events_total)
qed

theorem list_is_filter_witness:
  "list_consumption
     (Some \<lparr>q_user_id = None, from' = Some ''2024-01-10'', to' = Some ''2024-01-31''\<rparr>)
     [stored ''uuid-1'' (meal ''a'' ''2024-01-01T12:00:00Z'' (JStr ''g'') JUndefined),
      stored ''uuid-2'' (meal ''a'' ''2024-01-15T12:00:00Z'' (JStr ''g'') JUndefined),
      stored ''uuid-3'' (meal ''a'' ''2024-02-01T12:00:00Z'' (JStr ''g'') JUndefined)]
   = Inr [stored ''uuid-2'' (meal ''a'' ''2024-01-15T12:00:00Z'' (JStr ''g'') JUndefined)]"
proof -
  have "\<forall>e\<in>set [stored ''uuid-1'' (meal ''a'' ''2024-01-01T12:00:00Z'' (JStr ''g'') JUndefined),
                  stored ''uuid-2'' (meal ''a'' ''2024-01-15T12:00:00Z'' (JStr ''g'') JUndefined),
                  stored ''uuid-3'' (meal ''a'' ''2024-02-01T12:00:00Z'' (JStr ''g'') JUndefined)].
          \<exists>s. timestamp e = JStr s"
    by (simp add: stored_def meal_def)
  from list_is_filter [OF this] show ?thesis
    by (simp add: query_of_def matches_def date_of_def stored_def meal_def)
qed

text \<open>
  C7. \<^verbatim>\<open>summarize_intake\<close> is to return as \<^verbatim>\<open>total_calories\<close> the sum of the calories of
  the records that \<^verbatim>\<open>list_consumption\<close> returns, an absent value counting as 0. The
  in-memory binding stores whatever \<^verbatim>\<open>calories\<close> is submitted and adds with \<^verbatim>\<open>+\<close>:
  after the events with calories \<^verbatim>\<open>"100"\<close> and \<^verbatim>\<open>50\<close> are accepted into the empty
  store, the total is the string \<^verbatim>\<open>"010050"\<close>, whatever the rounding and the printing of
  numbers.
\<close>

theorem string_calories_are_joined:
  "log_consumption uuids
     (batch [EObject (meal ''a'' ''2024-01-01T08:00:00Z'' (JStr ''g'') (JStr ''100'')),
             EObject (meal ''a'' ''2024-01-01T12:00:00Z'' (JStr ''g'') (JNum 50))]) []
     = (Inr \<lparr>saved_count = 2\<rparr>,
        [stored (uuids 0) (meal ''a'' ''2024-01-01T08:00:00Z'' (JStr ''g'') (JStr ''100'')),
         stored (uuids 1) (meal ''a'' ''2024-01-01T12:00:00Z'' (JStr ''g'') (JNum 50))])
   \<and> summarize_intake rnd str None
        [stored (uuids 0) (meal ''a'' ''2024-01-01T08:00:00Z'' (JStr ''g'') (JStr ''100'')),
         stored (uuids 1) (meal ''a'' ''2024-01-01T12:00:00Z'' (JStr ''g'') (JNum 50))]
     = Inr \<lparr>total_calories = TStr ''010050'', events_count = 2\<rparr>"
proof
  show "log_consumption uuids
     (batch [EObject (meal ''a'' ''2024-01-01T08:00:00Z'' (JStr ''g'') (JStr ''100'')),
             EObject (meal ''a'' ''2024-01-01T12:00:00Z'' (JStr ''g'') (JNum 50))]) []
     = (Inr \<lparr>saved_count = 2\<rparr>,
        [stored (uuids 0) (meal ''a'' ''2024-01-01T08:00:00Z'' (JStr ''g'') (JStr ''100'')),
         stored (uuids 1) (meal ''a'' ''2024-01-01T12:00:00Z'' (JStr ''g'') (JNum 50))])"
    by (simp add: log_consumption_def batch_def events_of_def meal_def passes_def)
next
  have zero: "number_to_string str (Finite 0) = ''0''"
    by (simp add: number_to_string_def)
  have fifty: "number_to_string str (Finite 50) = ''50''"
    by (simp add: number_to_string_def)
  have "list_consumption (Some (query_of None))
        [stored (uuids 0) (meal ''a'' ''2024-01-01T08:00:00Z'' (JStr ''g'') (JStr ''100'')),
         stored (uuids 1) (meal ''a'' ''2024-01-01T12:00:00Z'' (JStr ''g'') (JNum 50))]
      = Inr [stored (uuids 0) (meal ''a'' ''2024-01-01T08:00:00Z'' (JStr ''g'') (JStr ''100'')),
             stored (uuids 1) (meal ''a'' ''2024-01-01T12:00:00Z'' (JStr ''g'') (JNum 50))]"
    by (simp add: list_consumption_def query_of_def no_query_def keeps_def iso_def or_else_def
        stored_def meal_def)
  then show "summarize_intake rnd str None
        [stored (uuids 0) (meal ''a'' ''2024-01-01T08:00:00Z'' (JStr ''g'') (JStr ''100'')),
         stored (uuids 1) (meal ''a'' ''2024-01-01T12:00:00Z'' (JStr ''g'') (JNum 50))]
     = Inr \<lparr>total_calories = TStr ''010050'', events_count = 2\<rparr>"
    by (simp add: summarize_intake_def stored_def meal_def or_else_def zero fifty)
qed

theorem string_calories_are_joined_witness:
  "total_calories (projr (summarize_intake Finite (\<lambda>r. []) None
     (snd (log_consumption (\<lambda>k. ''uuid'')
        (batch [EObject (meal ''a'' ''2024-01-01T08:00:00Z'' (JStr ''g'') (JStr ''100'')),
                EObject (meal ''a'' ''2024-01-01T12:00:00Z'' (JStr ''g'') (JNum 50))]) []))))
   = TStr ''010050''"
  using string_calories_are_joined [of "\<lambda>k. ''uuid''" Finite "\<lambda>r. []"] by simp

text \<open>
  C8. Let \<open>a\<close> and \<open>b\<close> be distinct non-empty user ids. Ingesting events submitted with
  \<^verbatim>\<open>user_id\<close> \<open>a\<close> changes neither what \<^verbatim>\<open>list_consumption\<close> returns for
  \<^verbatim>\<open>user_id\<close> \<open>b\<close> nor what \<^verbatim>\<open>summarize_intake\<close> counts and sums for it, whether or
  not the batch runs to its end; and over any store, no record owned by \<open>a\<close> is in a
  listing for \<open>b\<close>.
\<close>

theorem owner_isolation:
  assumes "a \<noteq> []" and "b \<noteq> []" and "a \<noteq> b"
      and sub: "\<forall>x\<in>set es. \<forall>e. x = EObject e \<longrightarrow> user_id e = JStr a"
      and q: "q_user_id q = Some b"
  shows "list_consumption (Some q) (snd (log_consumption uuids (batch es) db))
           = list_consumption (Some q) db
         \<and> summarize_intake rnd str (Some q) (snd (log_consumption uuids (batch es) db))
           = summarize_intake rnd str (Some q) db
         \<and> (\<forall>s evs. list_consumption (Some q) s = Inr evs
               \<longrightarrow> (\<forall>r\<in>set evs. user_id r \<noteq> JStr a))"
proof -
  from push_all_owner [OF sub assms(1), of uuids 0 db]
  obtain new where n: "snd (push_all uuids 0 es db) = db @ new"
    and o: "\<forall>r\<in>set new. user_id r = JStr a"
    by blast
  have db': "snd (log_consumption uuids (batch es) db) = db @ new"
    using n by (simp add: snd_log_consumption batch_def events_of_def)
  from o assms(3) have "\<forall>r\<in>set new. user_id r \<noteq> JStr b" by simp
  from list_ignores_other_owner [OF assms(2) this q]
  have l: "list_consumption (Some q) (db @ new) = list_consumption (Some q) db" .
  have s: "summarize_intake rnd str (Some q) (db @ new) = summarize_intake rnd str (Some q) db"
    using l by (simp add: summarize_intake_def query_of_def)
  have "\<forall>s evs. list_consumption (Some q) s = Inr evs \<longrightarrow> (\<forall>r\<in>set evs. user_id r \<noteq> JStr a)"
    using list_only_owner [OF assms(2) q] assms(3) by fastforce
  with l s db' show ?thesis by simp
qed

theorem owner_isolation_witness:
  "list_consumption (Some \<lparr>q_user_id = Some ''b'', from' = None, to' = None\<rparr>)
     (snd (log_consumption (\<lambda>k. ''uuid-2'')
        (batch [EObject (meal ''a'' ''2024-01-01T09:00:00Z'' (JStr ''g'') (JNum 100))])
        [stored ''uuid-1'' (meal ''b'' ''2024-01-01T08:00:00Z'' (JStr ''g'') (JNum 50))]))
     = Inr [stored ''uuid-1'' (meal ''b'' ''2024-01-01T08:00:00Z'' (JStr ''g'') (JNum 50))]
   \<and> summarize_intake Finite (\<lambda>r. []) (Some \<lparr>q_user_id = Some ''b'', from' = None, to' = None\<rparr>)
     (snd (log_consumption (\<lambda>k. ''uuid-2'')
        (batch [EObject (meal ''a'' ''2024-01-01T09:00:00Z'' (JStr ''g'') (JNum 100))])
        [stored ''uuid-1'' (meal ''b'' ''2024-01-01T08:00:00Z'' (JStr ''g'') (JNum 50))]))
     = Inr \<lparr>total_calories = TNum (Finite 50), events_count = 1\<rparr>"
proof -
  have "\<forall>x\<in>set [EObject (meal ''a'' ''2024-01-01T09:00:00Z'' (JStr ''g'') (JNum 100))].
          \<forall>e. x = EObject e \<longrightarrow> user_id e = JStr ''a''"
    by (simp add: meal_def)
  from owner_isolation [of "''a''" "''b''", OF _ _ _ this,
      of "\<lparr>q_user_id = Some ''b'', from' = None, to' = None\<rparr>" "\<lambda>k. ''uuid-2''"
         "[stored ''uuid-1'' (meal ''b'' ''2024-01-01T08:00:00Z'' (JStr ''g'') (JNum 50))]"
         Finite "\<lambda>r. []"]
  show ?thesis
    by (simp add: list_consumption_def summarize_intake_def query_of_def keeps_def iso_def
        or_else_def stored_def meal_def)
qed

text \<open>
  C9. \<^verbatim>\<open>log_consumption\<close> with an empty \<^verbatim>\<open>events\<close> array returns
  \<^verbatim>\<open>{ saved_count: 0 }\<close> and leaves the store as it is, in the in-memory binding and in
  the Postgres binding.
\<close>

theorem empty_batch_noop:
  "log_consumption uuids (batch []) db = (Inr \<lparr>saved_count = 0\<rparr>, db)
   \<and> pg_log_consumption convert uuids (batch []) t = (Inr \<lparr>saved_count = 0\<rparr>, t)"
  by (simp add: log_consumption_def pg_log_consumption_def batch_def events_of_def)

theorem empty_batch_noop_witness:
  "log_consumption (\<lambda>k. ''uuid-2'') (batch [])
      [stored ''uuid-1'' (meal ''a'' ''2024-01-01T08:00:00Z'' (JStr ''g'') JUndefined)]
     = (Inr \<lparr>saved_count = 0\<rparr>,
        [stored ''uuid-1'' (meal ''a'' ''2024-01-01T08:00:00Z'' (JStr ''g'') JUndefined)])
   \<and> pg_log_consumption Some (\<lambda>k. ''uuid-2'') (batch [])
      [stored ''uuid-1'' (meal ''a'' ''2024-01-01T08:00:00Z'' (JStr ''g'') JUndefined)]
     = (Inr \<lparr>saved_count = 0\<rparr>,
        [stored ''uuid-1'' (meal ''a'' ''2024-01-01T08:00:00Z'' (JStr ''g'') JUndefined)])"
  by (rule empty_batch_noop)

text \<open>
  C10. When the input of \<^verbatim>\<open>log_consumption\<close> is missing, has no \<^verbatim>\<open>events\<close>
  property, or has one that is not an array, the call does not throw: it returns
  \<^verbatim>\<open>{ saved_count: 0 }\<close> and leaves the store as it is, in the in-memory binding and in
  the Postgres binding.
\<close>

theorem no_array_is_empty_batch:
  "input \<in> {None, Some \<lparr>events = None\<rparr>, Some \<lparr>events = Some NotArray\<rparr>} \<Longrightarrow>
   log_consumption uuids input db = (Inr \<lparr>saved_count = 0\<rparr>, db)
   \<and> pg_log_consumption convert uuids input t = (Inr \<lparr>saved_count = 0\<rparr>, t)"
  by (auto simp add: log_consumption_def pg_log_consumption_def events_of_def)

theorem no_array_is_empty_batch_witness:
  "log_consumption (\<lambda>k. ''uuid-2'') (Some \<lparr>events = Some NotArray\<rparr>)
      [stored ''uuid-1'' (meal ''a'' ''2024-01-01T08:00:00Z'' (JStr ''g'') JUndefined)]
     = (Inr \<lparr>saved_count = 0\<rparr>,
        [stored ''uuid-1'' (meal ''a'' ''2024-01-01T08:00:00Z'' (JStr ''g'') JUndefined)])
   \<and> pg_log_consumption Some (\<lambda>k. ''uuid-2'') (Some \<lparr>events = Some NotArray\<rparr>)
      [stored ''uuid-1'' (meal ''a'' ''2024-01-01T08:00:00Z'' (JStr ''g'') JUndefined)]
     = (Inr \<lparr>saved_count = 0\<rparr>,
        [stored ''uuid-1'' (meal ''a'' ''2024-01-01T08:00:00Z'' (JStr ''g'') JUndefined)])"
  by (rule no_array_is_empty_batch) simp

end
